theory Spec2Isabelle
  imports Complex_Main
begin

section \<open>JavaScript values\<close>

text \<open>
  The classifier of \<^verbatim>\<open>EnterpriseInformationLayerService\<close> works on JavaScript numbers.
  A number is modelled as a real or one of the three special values of IEEE-754. The
  special values follow the IEEE rules that JavaScript applies; arithmetic on finite
  values is exact: rounding and overflow of doubles are not modelled, and the two signed
  zeros are identified (no division by a signal occurs in the code). A finite score of
  the model can therefore differ from the code's double in the last places, and a
  threshold met exactly in the model can be missed by the code. What is proved below for
  all signal vectors relates the values the classifier holds (selection among given
  probabilities, factors, the confidence and its range) and does not rest on the exact
  sums; the evaluations at sample vectors use the rules for the special values, or inputs
  at which the code's result is the double nearest the model's value.
\<close>

datatype num = Num real | PosInfinity | NegInfinity | NaN

instantiation num :: "{plus, times, inverse}"
begin

fun plus_num :: "num \<Rightarrow> num \<Rightarrow> num" where
  "plus_num NaN y = NaN"
| "plus_num x NaN = NaN"
| "plus_num (Num a) (Num b) = Num (a + b)"
| "plus_num PosInfinity NegInfinity = NaN"
| "plus_num NegInfinity PosInfinity = NaN"
| "plus_num PosInfinity y = PosInfinity"
| "plus_num x PosInfinity = PosInfinity"
| "plus_num NegInfinity y = NegInfinity"
| "plus_num x NegInfinity = NegInfinity"

fun times_num :: "num \<Rightarrow> num \<Rightarrow> num" where
  "times_num NaN y = NaN"
| "times_num x NaN = NaN"
| "times_num (Num a) (Num b) = Num (a * b)"
| "times_num (Num a) PosInfinity =
     (if a = 0 then NaN else if 0 < a then PosInfinity else NegInfinity)"
| "times_num (Num a) NegInfinity =
     (if a = 0 then NaN else if 0 < a then NegInfinity else PosInfinity)"
| "times_num PosInfinity (Num b) =
     (if b = 0 then NaN else if 0 < b then PosInfinity else NegInfinity)"
| "times_num NegInfinity (Num b) =
     (if b = 0 then NaN else if 0 < b then NegInfinity else PosInfinity)"
| "times_num PosInfinity PosInfinity = PosInfinity"
| "times_num PosInfinity NegInfinity = NegInfinity"
| "times_num NegInfinity PosInfinity = NegInfinity"
| "times_num NegInfinity NegInfinity = PosInfinity"

fun inverse_num :: "num \<Rightarrow> num" where
  "inverse_num NaN = NaN"
| "inverse_num (Num a) = (if a \<noteq> 0 then Num (1 / a) else PosInfinity)"
| "inverse_num PosInfinity = Num 0"
| "inverse_num NegInfinity = Num 0"

fun divide_num :: "num \<Rightarrow> num \<Rightarrow> num" where
  "divide_num NaN y = NaN"
| "divide_num x NaN = NaN"
| "divide_num (Num a) (Num b) =
     (if b \<noteq> 0 then Num (a / b)
      else if a = 0 then NaN else if 0 < a then PosInfinity else NegInfinity)"
| "divide_num (Num a) PosInfinity = Num 0"
| "divide_num (Num a) NegInfinity = Num 0"
| "divide_num PosInfinity (Num b) = (if 0 \<le> b then PosInfinity else NegInfinity)"
| "divide_num NegInfinity (Num b) = (if 0 \<le> b then NegInfinity else PosInfinity)"
| "divide_num PosInfinity PosInfinity = NaN"
| "divide_num PosInfinity NegInfinity = NaN"
| "divide_num NegInfinity PosInfinity = NaN"
| "divide_num NegInfinity NegInfinity = NaN"

instance ..

end

text \<open>\<^verbatim>\<open>Math.min\<close> and \<^verbatim>\<open>Math.max\<close>: \<^verbatim>\<open>NaN\<close> as soon as one argument is \<^verbatim>\<open>NaN\<close>.\<close>

fun Math_min :: "num \<Rightarrow> num \<Rightarrow> num" where
  "Math_min NaN y = NaN"
| "Math_min x NaN = NaN"
| "Math_min NegInfinity y = NegInfinity"
| "Math_min x NegInfinity = NegInfinity"
| "Math_min PosInfinity y = y"
| "Math_min x PosInfinity = x"
| "Math_min (Num a) (Num b) = Num (min a b)"

fun Math_max :: "num \<Rightarrow> num \<Rightarrow> num" where
  "Math_max NaN y = NaN"
| "Math_max x NaN = NaN"
| "Math_max PosInfinity y = PosInfinity"
| "Math_max x PosInfinity = PosInfinity"
| "Math_max NegInfinity y = y"
| "Math_max x NegInfinity = x"
| "Math_max (Num a) (Num b) = Num (max a b)"

text \<open>The comparisons \<^verbatim>\<open>x >= y\<close> and \<^verbatim>\<open>x > y\<close>: false as soon as one side is \<^verbatim>\<open>NaN\<close>.\<close>

fun js_ge :: "num \<Rightarrow> num \<Rightarrow> bool" where
  "js_ge NaN y = False"
| "js_ge x NaN = False"
| "js_ge (Num a) (Num b) = (b \<le> a)"
| "js_ge PosInfinity y = True"
| "js_ge x NegInfinity = True"
| "js_ge x PosInfinity = False"
| "js_ge NegInfinity y = False"

fun js_gt :: "num \<Rightarrow> num \<Rightarrow> bool" where
  "js_gt NaN y = False"
| "js_gt x NaN = False"
| "js_gt (Num a) (Num b) = (b < a)"
| "js_gt PosInfinity PosInfinity = False"
| "js_gt PosInfinity y = True"
| "js_gt NegInfinity y = False"
| "js_gt x NegInfinity = True"
| "js_gt x PosInfinity = False"

definition isNaN :: "num \<Rightarrow> bool" where
  "isNaN x = (x = NaN)"

fun is_finite :: "num \<Rightarrow> bool" where
  "is_finite (Num a) = True"
| "is_finite x = False"

text \<open>
  The values a signal can hold. \<open>JObject\<close> stands for any object or array; its contents
  are never inspected by the classifier.
\<close>

datatype jsval = JUndefined | JNull | JBoolean bool | JNumber num | JString string | JObject

fun typeof :: "jsval \<Rightarrow> string" where
  "typeof JUndefined = ''undefined''"
| "typeof JNull = ''object''"
| "typeof (JBoolean b) = ''boolean''"
| "typeof (JNumber n) = ''number''"
| "typeof (JString s) = ''string''"
| "typeof JObject = ''object''"

text \<open>Truthiness, as tested by \<^verbatim>\<open>v ? a : b\<close> and \<^verbatim>\<open>if (v)\<close>.\<close>

fun truthy :: "jsval \<Rightarrow> bool" where
  "truthy JUndefined = False"
| "truthy JNull = False"
| "truthy (JBoolean b) = b"
| "truthy (JNumber n) = (n \<noteq> Num 0 \<and> n \<noteq> NaN)"
| "truthy (JString s) = (s \<noteq> [])"
| "truthy JObject = True"

text \<open>
  The numeric value an operand takes in \<^verbatim>\<open>*\<close>, \<^verbatim>\<open>/\<close>, \<^verbatim>\<open>>\<close> and \<^verbatim>\<open>isNaN\<close>. The coercion
  of strings and objects is not modelled (it is set to \<open>NaN\<close>): the classifier rejects
  every signal that is not a number before it computes with it, see
  \<open>validated_numbers\<close> below.
\<close>

fun toNumber :: "jsval \<Rightarrow> num" where
  "toNumber JUndefined = NaN"
| "toNumber JNull = Num 0"
| "toNumber (JBoolean b) = (if b then Num 1 else Num 0)"
| "toNumber (JNumber n) = n"
| "toNumber (JString s) = NaN"
| "toNumber JObject = NaN"

text \<open>
  A signal vector is a JavaScript object read by property name; a name that the object
  does not hold reads as \<^verbatim>\<open>undefined\<close>.
\<close>

type_synonym signals = "string \<Rightarrow> jsval"

datatype error = Error string | TypeError string

section \<open>The segment catalog\<close>

record thresholds =
  engagement :: real
  confidence :: real
  priority :: real

text \<open>
  \<^verbatim>\<open>loadMOHDConfiguration().customerSegments\<close>, in declaration order, with the only field
  the classifier reads.
\<close>

definition customerSegments :: "(string \<times> thresholds) list" where
  "customerSegments =
    [(''italian_heritage_advocate'', \<lparr>engagement = 0.7, confidence = 0.75, priority = 0.8\<rparr>),
     (''luxury_project_planner'', \<lparr>engagement = 0.8, confidence = 0.85, priority = 0.9\<rparr>),
     (''international_minimalist'', \<lparr>engagement = 0.6, confidence = 0.7, priority = 0.65\<rparr>),
     (''hospitality_professional'', \<lparr>engagement = 0.75, confidence = 0.8, priority = 0.85\<rparr>)]"

section \<open>Validation\<close>

definition requiredSignals :: "string list" where
  "requiredSignals =
    [''designer_story_engagement'', ''craftsmanship_content_focus'', ''heritage_content_time'',
     ''multi_room_navigation'', ''complete_project_interest'', ''budget_premium_indicators'',
     ''clean_aesthetic_preference'', ''integration_content_focus'',
     ''contemporary_browsing_pattern'',
     ''commercial_scale_indicators'', ''durability_specs_interest'',
     ''technical_documentation_focus'',
     ''session_duration'', ''page_depth'', ''product_interaction_quality'',
     ''return_visitor_pattern'']"

definition missingSignals :: "signals \<Rightarrow> string list" where
  "missingSignals signals =
     filter (\<lambda>signal. signals signal = JUndefined \<or> signals signal = JNull) requiredSignals"

text \<open>\<^verbatim>\<open>Array.prototype.join\<close> on a list of strings.\<close>

fun join :: "string \<Rightarrow> string list \<Rightarrow> string" where
  "join sep [] = []"
| "join sep [x] = x"
| "join sep (x # y # ys) = x @ sep @ join sep (y # ys)"

definition quote :: "string \<Rightarrow> string" where
  "quote s = [CHR 0x27] @ s @ [CHR 0x27]"

definition isFlag :: "string \<Rightarrow> bool" where
  "isFlag signal = (signal = ''multi_room_navigation'' \<or> signal = ''return_visitor_pattern'')"

definition flagError :: "string \<Rightarrow> jsval \<Rightarrow> error" where
  "flagError signal v =
     Error (''Signal '' @ quote signal @ '' must be a boolean or number, got '' @ typeof v)"

definition numberError :: "string \<Rightarrow> jsval \<Rightarrow> error" where
  "numberError signal v =
     Error (''Signal '' @ quote signal @ '' must be a number, got '' @ typeof v)"

text \<open>The loop \<^verbatim>\<open>for (const signal of requiredSignals)\<close>; \<open>Some\<close> is the error it throws.\<close>

fun checkSignals :: "signals \<Rightarrow> string list \<Rightarrow> error option" where
  "checkSignals signals [] = None"
| "checkSignals signals (signal # rest) =
     (let v = signals signal in
      if isFlag signal then
        (if typeof v \<noteq> ''boolean'' \<and> typeof v \<noteq> ''number''
         then Some (flagError signal v)
         else checkSignals signals rest)
      else
        (if typeof v \<noteq> ''number'' \<or> isNaN (toNumber v)
         then Some (numberError signal v)
         else checkSignals signals rest))"

text \<open>The two validation steps together: the error thrown before any scoring, if any.\<close>

definition validate :: "signals \<Rightarrow> error option" where
  "validate signals =
     (if length (missingSignals signals) > 0
      then Some (Error (''Missing required signals: '' @ join '', '' (missingSignals signals)))
      else checkSignals signals requiredSignals)"

section \<open>Scoring\<close>

text \<open>
  \<^verbatim>\<open>calculateSegmentProbabilities\<close>. The object it returns is an association list in the
  order of the object literal, which is the order \<^verbatim>\<open>Object.entries\<close> walks. Its
  \<^verbatim>\<open>catch\<close> is not reached: arithmetic on primitive values does not throw.
\<close>

definition calculateSegmentProbabilities :: "signals \<Rightarrow> (string \<times> num) list" where
  "calculateSegmentProbabilities signals =
     (let heritageScore =
            toNumber (signals ''designer_story_engagement'') * Num 0.4 +
            toNumber (signals ''craftsmanship_content_focus'') * Num 0.3 +
            Math_min (toNumber (signals ''heritage_content_time'') / Num 120) (Num 1) * Num 0.3;
          plannerScore =
            (if truthy (signals ''multi_room_navigation'') then Num 1 else Num 0) * Num 0.35 +
            toNumber (signals ''complete_project_interest'') * Num 0.35 +
            toNumber (signals ''budget_premium_indicators'') * Num 0.3;
          minimalistScore =
            toNumber (signals ''clean_aesthetic_preference'') * Num 0.4 +
            toNumber (signals ''integration_content_focus'') * Num 0.35 +
            toNumber (signals ''contemporary_browsing_pattern'') * Num 0.25;
          hospitalityScore =
            toNumber (signals ''commercial_scale_indicators'') * Num 0.4 +
            toNumber (signals ''durability_specs_interest'') * Num 0.3 +
            toNumber (signals ''technical_documentation_focus'') * Num 0.3
      in [(''italian_heritage_advocate'', Math_min (Math_max heritageScore (Num 0)) (Num 1)),
          (''luxury_project_planner'', Math_min (Math_max plannerScore (Num 0)) (Num 1)),
          (''international_minimalist'', Math_min (Math_max minimalistScore (Num 0)) (Num 1)),
          (''hospitality_professional'', Math_min (Math_max hospitalityScore (Num 0)) (Num 1))])"

text \<open>
  The loop of \<^verbatim>\<open>selectPrimarySegment\<close> over \<^verbatim>\<open>Object.entries(probabilities)\<close>, with the
  two variables it updates. Reading \<^verbatim>\<open>thresholds\<close> of a segment the catalog does not
  hold throws a \<^verbatim>\<open>TypeError\<close>.
\<close>

fun selectLoop :: "(string \<times> num) list \<Rightarrow> num \<Rightarrow> string \<Rightarrow> error + string" where
  "selectLoop [] maxScore primarySegment = Inr primarySegment"
| "selectLoop ((segmentId, probability) # rest) maxScore primarySegment =
     (case map_of customerSegments segmentId of
        None \<Rightarrow> Inl (TypeError ''Cannot read properties of undefined'')
      | Some segmentConfig \<Rightarrow>
          if js_ge probability (Num (confidence segmentConfig)) \<and> js_gt probability maxScore
          then selectLoop rest probability segmentId
          else selectLoop rest maxScore primarySegment)"

definition selectPrimarySegment :: "(string \<times> num) list \<Rightarrow> error + string" where
  "selectPrimarySegment probabilities =
     selectLoop probabilities (Num 0) ''international_minimalist''"

text \<open>\<^verbatim>\<open>identifyClassificationFactors\<close>: each \<^verbatim>\<open>push\<close> appends to the list.\<close>

definition factor :: "bool \<Rightarrow> string \<Rightarrow> string list" where
  "factor passed text = (if passed then [text] else [])"

definition identifyClassificationFactors :: "signals \<Rightarrow> string \<Rightarrow> string list" where
  "identifyClassificationFactors signals primarySegment =
     (let threshold = Num 0.6 in
      if primarySegment = ''italian_heritage_advocate'' then
        factor (js_gt (toNumber (signals ''designer_story_engagement'')) threshold)
          ''High designer story engagement'' @
        factor (js_gt (toNumber (signals ''craftsmanship_content_focus'')) threshold)
          ''Strong craftsmanship interest'' @
        factor (js_gt (toNumber (signals ''heritage_content_time'')) (Num 90))
          ''Extended heritage content consumption''
      else if primarySegment = ''luxury_project_planner'' then
        factor (truthy (signals ''multi_room_navigation''))
          ''Multi-room project exploration'' @
        factor (js_gt (toNumber (signals ''complete_project_interest'')) threshold)
          ''Complete project interest signals'' @
        factor (js_gt (toNumber (signals ''budget_premium_indicators'')) threshold)
          ''Premium budget indicators''
      else if primarySegment = ''international_minimalist'' then
        factor (js_gt (toNumber (signals ''clean_aesthetic_preference'')) threshold)
          ''Clean aesthetic preference'' @
        factor (js_gt (toNumber (signals ''integration_content_focus'')) threshold)
          ''Integration-focused browsing'' @
        factor (js_gt (toNumber (signals ''contemporary_browsing_pattern'')) threshold)
          ''Contemporary design pattern''
      else if primarySegment = ''hospitality_professional'' then
        factor (js_gt (toNumber (signals ''commercial_scale_indicators'')) threshold)
          ''Commercial scale indicators'' @
        factor (js_gt (toNumber (signals ''durability_specs_interest'')) threshold)
          ''Technical specification focus'' @
        factor (js_gt (toNumber (signals ''technical_documentation_focus'')) threshold)
          ''Professional documentation interest''
      else [])"

text \<open>
  \<^verbatim>\<open>selectContentAngle\<close>. For a name that every object inherits (see \<open>inheritedNames\<close>
  below) the code returns the inherited function or object, which is not a string; the
  model does not cover these names and gives the fallback there. The classifier calls
  this function with one of the four segment ids only, see \<open>primary_in_catalog\<close>.
\<close>

definition selectContentAngle :: "string \<Rightarrow> string" where
  "selectContentAngle primarySegment =
     (let mapping =
            [(''italian_heritage_advocate'', ''italian_heritage''),
             (''luxury_project_planner'', ''project_completion''),
             (''international_minimalist'', ''contemporary_integration''),
             (''hospitality_professional'', ''artisanal_excellence'')]
      in case map_of mapping primarySegment of
           None \<Rightarrow> ''contemporary_integration''
         | Some angle \<Rightarrow> if angle \<noteq> [] then angle else ''contemporary_integration'')"

text \<open>
  Reading an object literal by a name it does not declare finds the properties of
  \<^verbatim>\<open>Object.prototype\<close>. Each of them holds a function or an object: a truthy value,
  and \<^verbatim>\<open>NaN\<close> when used as a number.
\<close>

definition inheritedNames :: "string list" where
  "inheritedNames =
    [''constructor'', ''__defineGetter__'', ''__defineSetter__'', ''hasOwnProperty'',
     ''__lookupGetter__'', ''__lookupSetter__'', ''isPrototypeOf'',
     ''propertyIsEnumerable'', ''toString'', ''valueOf'', ''__proto__'',
     ''toLocaleString'']"

text \<open>
  \<^verbatim>\<open>calculateConsultationReadiness\<close>. \<^verbatim>\<open>multipliers[primarySegment] || 1\<close> takes the
  declared multiplier, the inherited value for an inherited name (which multiplies as
  \<^verbatim>\<open>NaN\<close>), and 1 for any other name. The \<^verbatim>\<open>catch\<close> that returns 0.5 is not reached:
  arithmetic on these values does not throw.
\<close>

definition calculateConsultationReadiness :: "signals \<Rightarrow> string \<Rightarrow> num" where
  "calculateConsultationReadiness signals primarySegment =
     (let baseScore =
            Math_min (toNumber (signals ''session_duration'') / Num 600) (Num 1) * Num 0.3 +
            Math_min (toNumber (signals ''page_depth'') / Num 10) (Num 1) * Num 0.2 +
            toNumber (signals ''product_interaction_quality'') * Num 0.3 +
            (if truthy (signals ''return_visitor_pattern'') then Num 0.2 else Num 0);
          multipliers =
            [(''luxury_project_planner'', Num 1.5),
             (''hospitality_professional'', Num 1.3),
             (''italian_heritage_advocate'', Num 1.1),
             (''international_minimalist'', Num 0.8)];
          segmentMultiplier =
            (case map_of multipliers primarySegment of
               None \<Rightarrow> if primarySegment \<in> set inheritedNames then NaN else Num 1
             | Some m \<Rightarrow> if truthy (JNumber m) then m else Num 1)
      in Math_min (Math_max (baseScore * segmentMultiplier) (Num 0)) (Num 1))"

section \<open>Classification\<close>

record classification =
  primary_segment :: string
  confidence_score :: num
  segment_probabilities :: "(string \<times> num) list"
  classification_factors :: "string list"
  recommended_content_angle :: string
  consultation_readiness_score :: num

text \<open>
  The body of the \<^verbatim>\<open>try\<close> block of \<^verbatim>\<open>validateSegmentClassification\<close>, without the clock
  and the logger: \<open>Inl\<close> is the error thrown, \<open>Inr\<close> the object returned. A property
  that \<^verbatim>\<open>probabilities\<close> does not hold reads as \<^verbatim>\<open>undefined\<close>, which the guard on
  \<^verbatim>\<open>confidence\<close> turns into an error.
\<close>

definition classify :: "signals \<Rightarrow> error + classification" where
  "classify signals =
     (case validate signals of
        Some e \<Rightarrow> Inl e
      | None \<Rightarrow>
          (let probabilities = calculateSegmentProbabilities signals in
           case selectPrimarySegment probabilities of
             Inl e \<Rightarrow> Inl e
           | Inr primarySegment \<Rightarrow>
               (case map_of probabilities primarySegment of
                  None \<Rightarrow> Inl (Error ''Classification confidence calculation failed'')
                | Some confidence_value \<Rightarrow>
                    if isNaN confidence_value
                    then Inl (Error ''Classification confidence calculation failed'')
                    else Inr \<lparr>primary_segment = primarySegment,
                              confidence_score = confidence_value,
                              segment_probabilities = probabilities,
                              classification_factors =
                                identifyClassificationFactors signals primarySegment,
                              recommended_content_angle = selectContentAngle primarySegment,
                              consultation_readiness_score =
                                calculateConsultationReadiness signals primarySegment\<rparr>)))"

section \<open>The clock and the logger\<close>

text \<open>
  \<^verbatim>\<open>validateSegmentClassification\<close> reads \<^verbatim>\<open>performance.now()\<close> and logs through
  \<^verbatim>\<open>EnterpriseLogger\<close>, which stamps each line with \<^verbatim>\<open>new Date()\<close>. Both are state
  outside the classifier: the world holds the readings the clock will give, how many
  were taken, and the lines written so far. Of the logged data the model keeps the values
  computed by the classifier; the count of keys and the number formatting are left out,
  and so are the emoji of the messages.
\<close>

datatype log_level = Info | Failure

datatype payload = PString string | PNumber num

record log_line =
  log_level :: log_level
  log_stamp :: real
  log_message :: string
  log_data :: "(string \<times> payload) list"

record world =
  clock :: "nat \<Rightarrow> real"
  ticks :: nat
  console :: "log_line list"

definition read_clock :: "world \<Rightarrow> real \<times> world" where
  "read_clock w = (clock w (ticks w), w\<lparr>ticks := Suc (ticks w)\<rparr>)"

definition logger :: "log_level \<Rightarrow> string \<Rightarrow> (string \<times> payload) list \<Rightarrow> world \<Rightarrow> world" where
  "logger lvl msg dat w =
     (let (now, w1) = read_clock w
      in w1\<lparr>console := console w1 @
            [\<lparr>log_level = lvl, log_stamp = now, log_message = msg, log_data = dat\<rparr>]\<rparr>)"

fun error_message :: "error \<Rightarrow> string" where
  "error_message (Error m) = m"
| "error_message (TypeError m) = m"

definition validateSegmentClassification ::
  "signals \<Rightarrow> world \<Rightarrow> (error + classification) \<times> world" where
  "validateSegmentClassification signals w =
     (let (startTime, w1) = read_clock w in
      case classify signals of
        Inr c \<Rightarrow>
          (let (endTime, w2) = read_clock w1;
               processingTime = endTime - startTime
           in (Inr c,
               logger Info ''Enterprise segment classification completed''
                 [(''primarySegment'', PString (primary_segment c)),
                  (''confidence'', PNumber (confidence_score c)),
                  (''processingTime'', PNumber (Num processingTime)),
                  (''security'', PString ''VALIDATED'')] w2))
      | Inl e \<Rightarrow>
          (Inl e,
           logger Failure ''Enterprise segment classification failed''
             [(''error'', PString (error_message e))] w1))"

section \<open>The specification's reading\<close>

text \<open>
  The definitions of this section follow the words of the specification, not the code;
  the theorems below compare the two.
\<close>

text \<open>A number of the unit interval; \<open>NaN\<close> and the infinities are not.\<close>

fun in_unit :: "num \<Rightarrow> bool" where
  "in_unit (Num r) = (0 \<le> r \<and> r \<le> 1)"
| "in_unit x = False"

definition clamp01 :: "num \<Rightarrow> num" where
  "clamp01 x = Math_min (Math_max x (Num 0)) (Num 1)"

definition flag01 :: "jsval \<Rightarrow> num" where
  "flag01 v = (if truthy v then Num 1 else Num 0)"

text \<open>What the validation loop accepts for a signal, once it is present and non-null.\<close>

fun accepted :: "string \<Rightarrow> jsval \<Rightarrow> bool" where
  "accepted signal (JBoolean b) = isFlag signal"
| "accepted signal (JNumber n) = (isFlag signal \<or> n \<noteq> NaN)"
| "accepted signal v = False"

definition signalError :: "string \<Rightarrow> jsval \<Rightarrow> error" where
  "signalError signal v = (if isFlag signal then flagError signal v else numberError signal v)"

definition numeric_finite :: "signals \<Rightarrow> bool" where
  "numeric_finite signals =
     list_all (\<lambda>signal. isFlag signal \<or> is_finite (toNumber (signals signal))) requiredSignals"

text \<open>The four weighted scores as the specification's table writes them.\<close>

definition spec_heritage :: "signals \<Rightarrow> num" where
  "spec_heritage s =
     Num 0.4 * toNumber (s ''designer_story_engagement'') +
     Num 0.3 * toNumber (s ''craftsmanship_content_focus'') +
     Num 0.3 * Math_min (toNumber (s ''heritage_content_time'') / Num 120) (Num 1)"

definition spec_planner :: "signals \<Rightarrow> num" where
  "spec_planner s =
     Num 0.35 * flag01 (s ''multi_room_navigation'') +
     Num 0.35 * toNumber (s ''complete_project_interest'') +
     Num 0.3 * toNumber (s ''budget_premium_indicators'')"

definition spec_minimalist :: "signals \<Rightarrow> num" where
  "spec_minimalist s =
     Num 0.4 * toNumber (s ''clean_aesthetic_preference'') +
     Num 0.35 * toNumber (s ''integration_content_focus'') +
     Num 0.25 * toNumber (s ''contemporary_browsing_pattern'')"

definition spec_hospitality :: "signals \<Rightarrow> num" where
  "spec_hospitality s =
     Num 0.4 * toNumber (s ''commercial_scale_indicators'') +
     Num 0.3 * toNumber (s ''durability_specs_interest'') +
     Num 0.3 * toNumber (s ''technical_documentation_focus'')"

text \<open>
  Primary-segment selection in the specification's words: the eligible entries are those
  whose probability reaches the segment's own threshold; the choice is the first entry,
  in declared order, whose probability is at least that of every eligible entry; with no
  eligible entry it is \<^verbatim>\<open>international_minimalist\<close>.
\<close>

definition spec_threshold :: "(string \<times> real) list" where
  "spec_threshold =
    [(''italian_heritage_advocate'', 0.75),
     (''luxury_project_planner'', 0.85),
     (''international_minimalist'', 0.7),
     (''hospitality_professional'', 0.8)]"

definition eligible :: "string \<times> num \<Rightarrow> bool" where
  "eligible e =
     (case map_of spec_threshold (fst e) of
        None \<Rightarrow> False
      | Some t \<Rightarrow> js_ge (snd e) (Num t))"

definition greatest_in :: "(string \<times> num) list \<Rightarrow> string \<times> num \<Rightarrow> bool" where
  "greatest_in es e = list_all (\<lambda>e'. js_ge (snd e) (snd e')) es"

definition spec_primary :: "(string \<times> num) list \<Rightarrow> string" where
  "spec_primary probabilities =
     (let es = filter eligible probabilities in
      case find (greatest_in es) es of
        None \<Rightarrow> ''international_minimalist''
      | Some e \<Rightarrow> fst e)"

text \<open>
  The factor checks as a table: per segment, the checks in their fixed order, each with
  the text it contributes.
\<close>

datatype factor_check = Above string real | Flag string

fun passes :: "signals \<Rightarrow> factor_check \<Rightarrow> bool" where
  "passes s (Above signal t) = js_gt (toNumber (s signal)) (Num t)"
| "passes s (Flag signal) = truthy (s signal)"

definition factor_table :: "string \<Rightarrow> (factor_check \<times> string) list" where
  "factor_table segment =
     (if segment = ''italian_heritage_advocate'' then
        [(Above ''designer_story_engagement'' 0.6, ''High designer story engagement''),
         (Above ''craftsmanship_content_focus'' 0.6, ''Strong craftsmanship interest''),
         (Above ''heritage_content_time'' 90, ''Extended heritage content consumption'')]
      else if segment = ''luxury_project_planner'' then
        [(Flag ''multi_room_navigation'', ''Multi-room project exploration''),
         (Above ''complete_project_interest'' 0.6, ''Complete project interest signals''),
         (Above ''budget_premium_indicators'' 0.6, ''Premium budget indicators'')]
      else if segment = ''international_minimalist'' then
        [(Above ''clean_aesthetic_preference'' 0.6, ''Clean aesthetic preference''),
         (Above ''integration_content_focus'' 0.6, ''Integration-focused browsing''),
         (Above ''contemporary_browsing_pattern'' 0.6, ''Contemporary design pattern'')]
      else if segment = ''hospitality_professional'' then
        [(Above ''commercial_scale_indicators'' 0.6, ''Commercial scale indicators''),
         (Above ''durability_specs_interest'' 0.6, ''Technical specification focus''),
         (Above ''technical_documentation_focus'' 0.6, ''Professional documentation interest'')]
      else [])"

definition spec_factors :: "signals \<Rightarrow> string \<Rightarrow> string list" where
  "spec_factors s segment = map snd (filter (\<lambda>c. passes s (fst c)) (factor_table segment))"

section \<open>Sample signal vectors\<close>

definition all_zero :: signals where
  "all_zero = (\<lambda>signal. JNumber (Num 0))"

definition two_missing :: signals where
  "two_missing = all_zero(''page_depth'' := JNull, ''session_duration'' := JUndefined)"





definition heritage_at_threshold :: signals where
  "heritage_at_threshold =
     all_zero(''designer_story_engagement'' := JNumber (Num 0.6),
              ''craftsmanship_content_focus'' := JNumber (Num 1),
              ''heritage_content_time'' := JNumber (Num 90))"

definition planner_full :: signals where
  "planner_full =
     all_zero(''multi_room_navigation'' := JBoolean True,
              ''complete_project_interest'' := JNumber (Num 1),
              ''budget_premium_indicators'' := JNumber (Num 1))"

definition tie_vector :: signals where
  "tie_vector =
     all_zero(''designer_story_engagement'' := JNumber (Num 1),
              ''craftsmanship_content_focus'' := JNumber (Num 1),
              ''heritage_content_time'' := JNumber (Num 120),
              ''commercial_scale_indicators'' := JNumber (Num 1),
              ''durability_specs_interest'' := JNumber (Num 1),
              ''technical_documentation_focus'' := JNumber (Num 1))"

definition all_zero_result :: classification where
  "all_zero_result =
     \<lparr>primary_segment = ''international_minimalist'',
      confidence_score = Num 0,
      segment_probabilities =
        [(''italian_heritage_advocate'', Num 0),
         (''luxury_project_planner'', Num 0),
         (''international_minimalist'', Num 0),
         (''hospitality_professional'', Num 0)],
      classification_factors = [],
      recommended_content_angle = ''contemporary_integration'',
      consultation_readiness_score = Num 0\<rparr>"

definition planner_full_result :: classification where
  "planner_full_result =
     \<lparr>primary_segment = ''luxury_project_planner'',
      confidence_score = Num 1,
      segment_probabilities =
        [(''italian_heritage_advocate'', Num 0),
         (''luxury_project_planner'', Num 1),
         (''international_minimalist'', Num 0),
         (''hospitality_professional'', Num 0)],
      classification_factors =
        [''Multi-room project exploration'', ''Complete project interest signals'',
         ''Premium budget indicators''],
      recommended_content_angle = ''project_completion'',
      consultation_readiness_score = Num 0\<rparr>"



definition heritage_at_threshold_result :: classification where
  "heritage_at_threshold_result =
     \<lparr>primary_segment = ''italian_heritage_advocate'',
      confidence_score = Num 0.765,
      segment_probabilities =
        [(''italian_heritage_advocate'', Num 0.765),
         (''luxury_project_planner'', Num 0),
         (''international_minimalist'', Num 0),
         (''hospitality_professional'', Num 0)],
      classification_factors = [''Strong craftsmanship interest''],
      recommended_content_angle = ''italian_heritage'',
      consultation_readiness_score = Num 0\<rparr>"

definition idle_world :: world where
  "idle_world = \<lparr>clock = (\<lambda>n. real n), ticks = 0, console = []\<rparr>"

section \<open>Properties of the number model\<close>

lemma clamp01_finite: "is_finite x \<Longrightarrow> in_unit (clamp01 x)"
  by (cases x) (auto simp: clamp01_def)

lemma is_finite_plus: "is_finite a \<Longrightarrow> is_finite b \<Longrightarrow> is_finite (a + b)"
  by (cases a; cases b) auto

lemma is_finite_times: "is_finite a \<Longrightarrow> is_finite b \<Longrightarrow> is_finite (a * b)"
  by (cases a; cases b) auto

lemma is_finite_divide: "is_finite a \<Longrightarrow> c \<noteq> 0 \<Longrightarrow> is_finite (a / Num c)"
  by (cases a) auto

lemma is_finite_min: "is_finite a \<Longrightarrow> is_finite (Math_min a (Num c))"
  by (cases a) auto

lemma is_finite_flag01: "is_finite (flag01 v)"
  by (simp add: flag01_def)

lemma times_num_commute: "a * b = b * (a::num)"
  by (cases a; cases b) (auto simp: mult.commute)

lemma in_unit_not_NaN: "in_unit x \<Longrightarrow> x \<noteq> NaN"
  by (cases x) auto

lemma js_gt_ge: "js_gt a b \<Longrightarrow> js_ge a b"
  by (cases a; cases b) auto

lemma js_ge_not_NaN: "js_ge a b \<Longrightarrow> a \<noteq> NaN \<and> b \<noteq> NaN"
  by (cases a; cases b) auto

lemma js_ge_total: "a \<noteq> NaN \<Longrightarrow> b \<noteq> NaN \<Longrightarrow> js_ge a b \<or> js_gt b a"
  by (cases a; cases b) auto

lemma js_gt_not_ge: "js_gt b a \<Longrightarrow> \<not> js_ge a b"
  by (cases a; cases b) auto

lemma js_ge_gt_trans: "js_ge a b \<Longrightarrow> js_gt b c \<Longrightarrow> js_gt a c"
  by (cases a; cases b; cases c) auto

lemma js_gt_ge_trans: "js_gt a b \<Longrightarrow> js_ge b c \<Longrightarrow> js_gt a c"
  by (cases a; cases b; cases c) auto

lemma js_ge_refl: "a \<noteq> NaN \<Longrightarrow> js_ge a a"
  by (cases a) auto

section \<open>Properties of validation\<close>

lemma set_missingSignals:
  "set (missingSignals s) = {k \<in> set requiredSignals. s k = JUndefined \<or> s k = JNull}"
  by (auto simp: missingSignals_def)

lemma distinct_requiredSignals: "distinct requiredSignals"
  by (simp add: requiredSignals_def)

lemma distinct_missingSignals: "distinct (missingSignals s)"
  unfolding missingSignals_def by (rule distinct_filter) (rule distinct_requiredSignals)

lemma accepted_iff:
  "v \<noteq> JUndefined \<Longrightarrow> v \<noteq> JNull \<Longrightarrow>
   accepted k v \<longleftrightarrow>
     (if isFlag k then \<not> (typeof v \<noteq> ''boolean'' \<and> typeof v \<noteq> ''number'')
      else \<not> (typeof v \<noteq> ''number'' \<or> isNaN (toNumber v)))"
  by (cases v) (auto simp: isNaN_def)

lemma checkSignals_find:
  "\<forall>k\<in>set ks. s k \<noteq> JUndefined \<and> s k \<noteq> JNull \<Longrightarrow>
   checkSignals s ks =
     map_option (\<lambda>k. signalError k (s k)) (find (\<lambda>k. \<not> accepted k (s k)) ks)"
proof (induction ks)
  case Nil
  show ?case by simp
next
  case (Cons k ks)
  then have p: "s k \<noteq> JUndefined" "s k \<noteq> JNull" by simp_all
  from Cons have ih: "checkSignals s ks =
     map_option (\<lambda>k. signalError k (s k)) (find (\<lambda>k. \<not> accepted k (s k)) ks)" by simp
  show ?case
    using accepted_iff [OF p, of k] ih
    by (simp add: signalError_def Let_def)
qed

lemma validate_present:
  assumes "missingSignals s = []"
  shows "validate s = map_option (\<lambda>k. signalError k (s k)) (find (\<lambda>k. \<not> accepted k (s k)) requiredSignals)"
proof -
  have "\<forall>k\<in>set requiredSignals. s k \<noteq> JUndefined \<and> s k \<noteq> JNull"
    using assms set_missingSignals [of s] by auto
  then show ?thesis using assms by (simp add: validate_def checkSignals_find)
qed

lemma validate_missing:
  "missingSignals s \<noteq> [] \<Longrightarrow>
   validate s = Some (Error (''Missing required signals: '' @ join '', '' (missingSignals s)))"
  by (simp add: validate_def)

lemma validate_None_iff:
  "validate s = None \<longleftrightarrow> missingSignals s = [] \<and> (\<forall>k\<in>set requiredSignals. accepted k (s k))"
proof (cases "missingSignals s = []")
  case True
  then show ?thesis by (auto simp: validate_present find_None_iff)
next
  case False
  then show ?thesis by (simp add: validate_missing)
qed

lemma classify_invalid: "validate s = Some e \<Longrightarrow> classify s = Inl e"
  by (simp add: classify_def)

text \<open>
  C3: when one of the 16 required signals is missing or null, classification fails with
  the error whose message lists the missing signals; the list holds exactly the required
  signals that are missing or null, each once, and no classification is produced, with or
  without the clock and logger around it.
\<close>

theorem missing_signals_rejected:
  assumes "\<exists>k\<in>set requiredSignals. s k = JUndefined \<or> s k = JNull"
  shows "classify s = Inl (Error (''Missing required signals: '' @ join '', '' (missingSignals s)))
    \<and> fst (validateSegmentClassification s w) = classify s
    \<and> set (missingSignals s) = {k \<in> set requiredSignals. s k = JUndefined \<or> s k = JNull}
    \<and> distinct (missingSignals s)"
proof -
  from assms have "set (missingSignals s) \<noteq> {}" unfolding set_missingSignals by blast
  then have "missingSignals s \<noteq> []" by auto
  then have "classify s = Inl (Error (''Missing required signals: '' @ join '', '' (missingSignals s)))"
    by (simp add: classify_invalid validate_missing)
  moreover have "fst (validateSegmentClassification s w) = classify s"
    by (simp add: validateSegmentClassification_def read_clock_def split: sum.split prod.split)
  ultimately show ?thesis
    using set_missingSignals [of s] distinct_missingSignals [of s] by simp
qed

lemma two_missing_eval: "missingSignals two_missing = [''session_duration'', ''page_depth'']"
  by (simp add: missingSignals_def requiredSignals_def two_missing_def all_zero_def)

theorem missing_signals_rejected_witness:
  "two_missing ''page_depth'' = JNull
   \<and> classify two_missing = Inl (Error ''Missing required signals: session_duration, page_depth'')
   \<and> fst (validateSegmentClassification two_missing idle_world) = classify two_missing"
proof -
  have h: "\<exists>k\<in>set requiredSignals. two_missing k = JUndefined \<or> two_missing k = JNull"
    by (simp add: requiredSignals_def two_missing_def)
  show ?thesis
    using missing_signals_rejected [OF h, of idle_world]
    by (simp add: two_missing_eval) (simp add: two_missing_def)
qed

lemmas model_defs = classify_def validate_def missingSignals_def requiredSignals_def
  isFlag_def isNaN_def calculateSegmentProbabilities_def selectPrimarySegment_def
  customerSegments_def identifyClassificationFactors_def factor_def selectContentAngle_def
  calculateConsultationReadiness_def Let_def

lemma classify_all_zero: "classify all_zero = Inr all_zero_result"
  by (simp add: model_defs all_zero_def all_zero_result_def)


lemma accepted_numeric:
  "\<not> isFlag k \<Longrightarrow> accepted k v \<longleftrightarrow> (\<exists>n. v = JNumber n \<and> n \<noteq> NaN)"
  by (cases v) auto






text \<open>
  C5: the confidence score of a returned classification is the value stored under the
  primary segment in its probability mapping.
\<close>

theorem confidence_is_primary_probability:
  "classify s = Inr c \<Longrightarrow>
   map_of (segment_probabilities c) (primary_segment c) = Some (confidence_score c)"
  by (auto simp: classify_def Let_def split: option.splits sum.splits if_splits)

theorem confidence_is_primary_probability_witness:
  "classify all_zero = Inr all_zero_result
   \<and> map_of (segment_probabilities all_zero_result) (primary_segment all_zero_result) =
       Some (confidence_score all_zero_result)
   \<and> confidence_score all_zero_result = Num 0"
  using confidence_is_primary_probability [OF classify_all_zero]
  by (simp add: classify_all_zero) (simp add: all_zero_result_def)

section \<open>Properties of scoring, selection and the derived values\<close>

lemma probabilities_spec:
  "calculateSegmentProbabilities s =
     [(''italian_heritage_advocate'', clamp01 (spec_heritage s)),
      (''luxury_project_planner'', clamp01 (spec_planner s)),
      (''international_minimalist'', clamp01 (spec_minimalist s)),
      (''hospitality_professional'', clamp01 (spec_hospitality s))]"
  by (simp add: calculateSegmentProbabilities_def clamp01_def spec_heritage_def
      spec_planner_def spec_minimalist_def spec_hospitality_def flag01_def
      times_num_commute [of "Num c" for c])

lemma numeric_finite_signals:
  assumes "numeric_finite s"
  shows "is_finite (toNumber (s ''designer_story_engagement''))"
    "is_finite (toNumber (s ''craftsmanship_content_focus''))"
    "is_finite (toNumber (s ''heritage_content_time''))"
    "is_finite (toNumber (s ''complete_project_interest''))"
    "is_finite (toNumber (s ''budget_premium_indicators''))"
    "is_finite (toNumber (s ''clean_aesthetic_preference''))"
    "is_finite (toNumber (s ''integration_content_focus''))"
    "is_finite (toNumber (s ''contemporary_browsing_pattern''))"
    "is_finite (toNumber (s ''commercial_scale_indicators''))"
    "is_finite (toNumber (s ''durability_specs_interest''))"
    "is_finite (toNumber (s ''technical_documentation_focus''))"
    "is_finite (toNumber (s ''session_duration''))"
    "is_finite (toNumber (s ''page_depth''))"
    "is_finite (toNumber (s ''product_interaction_quality''))"
  using assms by (simp_all add: numeric_finite_def requiredSignals_def isFlag_def)

lemmas finite_intros = is_finite_plus is_finite_times is_finite_divide is_finite_min
  is_finite_flag01 is_finite.simps(1)

lemma spec_scores_finite:
  assumes "numeric_finite s"
  shows "is_finite (spec_heritage s)" "is_finite (spec_planner s)"
    "is_finite (spec_minimalist s)" "is_finite (spec_hospitality s)"
  unfolding spec_heritage_def spec_planner_def spec_minimalist_def spec_hospitality_def
  by (intro finite_intros numeric_finite_signals [OF assms]; simp)+

lemma probabilities_finite_range:
  "numeric_finite s \<Longrightarrow> e \<in> set (calculateSegmentProbabilities s) \<Longrightarrow> in_unit (snd e)"
  using spec_scores_finite [of s] by (auto simp: probabilities_spec intro: clamp01_finite)

lemma classify_probabilities:
  "classify s = Inr c \<Longrightarrow> segment_probabilities c = calculateSegmentProbabilities s"
  by (auto simp: classify_def Let_def split: option.splits sum.splits if_splits)

lemma validate_planner_full: "validate planner_full = None"
  by (simp add: validate_def missingSignals_def requiredSignals_def isFlag_def isNaN_def
      planner_full_def all_zero_def)

lemma classify_planner_full: "classify planner_full = Inr planner_full_result"
  by (simp add: model_defs planner_full_def all_zero_def planner_full_result_def)



lemma validated_numbers:
  assumes "validate s = None" "k \<in> set requiredSignals" "\<not> isFlag k"
  shows "\<exists>n. s k = JNumber n \<and> n \<noteq> NaN \<and> toNumber (s k) = n"
proof -
  from assms have "accepted k (s k)" by (simp add: validate_None_iff)
  with assms(3) show ?thesis by (auto simp: accepted_numeric)
qed


lemma probabilities_keys:
  "map fst (calculateSegmentProbabilities s) = map fst customerSegments"
  by (simp add: probabilities_spec customerSegments_def)

lemma catalog_thresholds:
  "map (\<lambda>e. (fst e, confidence (snd e))) customerSegments = spec_threshold"
  by (simp add: customerSegments_def spec_threshold_def)

lemma eligible_catalog:
  "eligible (k, p) =
     (case map_of customerSegments k of
        None \<Rightarrow> False
      | Some cfg \<Rightarrow> js_ge p (Num (confidence cfg)))"
  by (simp add: eligible_def spec_threshold_def customerSegments_def)

lemma eligible_positive: "eligible e \<Longrightarrow> js_gt (snd e) (Num 0)"
proof -
  assume e: "eligible e"
  then obtain t where t: "map_of spec_threshold (fst e) = Some t" "js_ge (snd e) (Num t)"
    by (auto simp: eligible_def split: option.splits)
  from t(1) have "0 < t" by (auto simp: spec_threshold_def split: if_splits)
  then have "js_gt (Num t) (Num 0)" by simp
  with t(2) show ?thesis by (rule js_ge_gt_trans)
qed

lemma eligible_not_NaN: "eligible e \<Longrightarrow> snd e \<noteq> NaN"
  by (auto simp: eligible_def split: option.splits dest: js_ge_not_NaN)

lemma find_greatest_skip:
  assumes "\<exists>e'\<in>set es. js_gt (snd e') (snd x)"
  shows "find (greatest_in (x # es)) (x # es) = find (greatest_in es) es"
proof -
  from assms obtain e' where e': "e' \<in> set es" "js_gt (snd e') (snd x)" by blast
  then have "\<not> js_ge (snd x) (snd e')" by (simp add: js_gt_not_ge)
  with e'(1) have nx: "\<not> greatest_in (x # es) x"
    by (auto simp: greatest_in_def list_all_iff)
  have "greatest_in (x # es) e = greatest_in es e" if "e \<in> set es" for e
  proof
    assume "greatest_in (x # es) e"
    then show "greatest_in es e" by (simp add: greatest_in_def)
  next
    assume g: "greatest_in es e"
    with e'(1) have "js_ge (snd e) (snd e')" by (simp add: greatest_in_def list_all_iff)
    then have "js_gt (snd e) (snd x)" using e'(2) by (rule js_ge_gt_trans)
    then have "js_ge (snd e) (snd x)" by (rule js_gt_ge)
    with g show "greatest_in (x # es) e" by (simp add: greatest_in_def)
  qed
  then have "find (greatest_in (x # es)) es = find (greatest_in es) es"
    by (intro find_cong) simp_all
  with nx show ?thesis by simp
qed

lemma find_greatest_head:
  assumes "\<forall>e\<in>set es. snd e \<noteq> NaN" "snd x \<noteq> NaN"
    and "\<not> (\<exists>e'\<in>set es. js_gt (snd e') (snd x))"
  shows "find (greatest_in (x # es)) (x # es) = Some x"
proof -
  have "js_ge (snd x) (snd e)" if "e \<in> set es" for e
    using that assms js_ge_total [of "snd x" "snd e"] by blast
  then have "greatest_in (x # es) x"
    using assms(2) by (simp add: greatest_in_def list_all_iff js_ge_refl)
  then show ?thesis by simp
qed

lemma greatest_exists:
  "es \<noteq> [] \<Longrightarrow> \<forall>e\<in>set es. snd e \<noteq> NaN \<Longrightarrow> \<exists>e. find (greatest_in es) es = Some e"
proof (induction es)
  case Nil
  then show ?case by simp
next
  case (Cons x es)
  show ?case
  proof (cases "\<exists>e'\<in>set es. js_gt (snd e') (snd x)")
    case True
    then have "es \<noteq> []" by auto
    then have "\<exists>e. find (greatest_in es) es = Some e" using Cons by simp
    then show ?thesis using find_greatest_skip [OF True] by simp
  next
    case False
    then have "find (greatest_in (x # es)) (x # es) = Some x"
      using find_greatest_head [of es x] Cons.prems(2) by simp
    then show ?thesis by blast
  qed
qed

lemma selectLoop_spec:
  assumes "\<forall>e\<in>set xs. fst e \<in> fst ` set customerSegments" "m \<noteq> NaN"
  shows "selectLoop xs m prim =
     Inr (if \<exists>e\<in>set (filter eligible xs). js_gt (snd e) m
          then (case find (greatest_in (filter eligible xs)) (filter eligible xs) of
                  None \<Rightarrow> prim | Some e \<Rightarrow> fst e)
          else prim)"
  using assms
proof (induction xs arbitrary: m prim)
  case Nil
  show ?case by simp
next
  case (Cons x xs)
  obtain k p where x: "x = (k, p)" by (cases x)
  let ?es = "filter eligible xs"
  from Cons.prems(1) x have "k \<in> fst ` set customerSegments" by simp
  then obtain cfg where cfg: "map_of customerSegments k = Some cfg"
    by (metis map_of_eq_None_iff not_Some_eq)
  have el: "eligible x = js_ge p (Num (confidence cfg))"
    by (simp add: x eligible_catalog cfg)
  have keys: "\<forall>e\<in>set xs. fst e \<in> fst ` set customerSegments"
    using Cons.prems(1) by simp
  have nn: "\<forall>e\<in>set ?es. snd e \<noteq> NaN" by (simp add: eligible_not_NaN)
  have px: "snd x = p" by (simp add: x)
  show ?case
  proof (cases "eligible x")
    case False
    then have step: "selectLoop (x # xs) m prim = selectLoop xs m prim"
      using el by (simp add: x cfg)
    have f: "filter eligible (x # xs) = ?es" using False by simp
    show ?thesis unfolding step f by (rule Cons.IH [OF keys Cons.prems(2)])
  next
    case True
    then have pn: "p \<noteq> NaN" using eligible_not_NaN [of x] by (simp add: x)
    have f: "filter eligible (x # xs) = x # ?es" using True by simp
    show ?thesis
    proof (cases "js_gt p m")
      case gt: True
      then have step: "selectLoop (x # xs) m prim = selectLoop xs p k"
        using True el by (simp add: x cfg)
      have ex: "\<exists>e\<in>set (x # ?es). js_gt (snd e) m" using gt by (simp add: x)
      show ?thesis
      proof (cases "\<exists>e'\<in>set ?es. js_gt (snd e') p")
        case True
        then have sk: "find (greatest_in (x # ?es)) (x # ?es) = find (greatest_in ?es) ?es"
          by (rule find_greatest_skip [of ?es x, unfolded px])
        from True obtain e0 where "e0 \<in> set ?es" by blast
        then have "?es \<noteq> []" by (metis empty_iff empty_set)
        then obtain e where e: "find (greatest_in ?es) ?es = Some e"
          using greatest_exists [OF _ nn] by blast
        have "selectLoop xs p k = Inr (fst e)"
          using Cons.IH [OF keys pn, of k] by (simp only: if_P [OF True] e option.case)
        moreover have "(if \<exists>e\<in>set (x # ?es). js_gt (snd e) m
          then (case find (greatest_in (x # ?es)) (x # ?es) of
                  None \<Rightarrow> prim | Some e \<Rightarrow> fst e)
          else prim) = fst e"
          by (simp only: if_P [OF ex] sk e option.case)
        ultimately show ?thesis unfolding step f by (simp only:)
      next
        case False
        have hd: "find (greatest_in (x # ?es)) (x # ?es) = Some x"
          by (rule find_greatest_head [of ?es x, unfolded px, OF nn pn False])
        have "selectLoop xs p k = Inr k"
          using Cons.IH [OF keys pn, of k] by (simp only: if_not_P [OF False])
        moreover have "(if \<exists>e\<in>set (x # ?es). js_gt (snd e) m
          then (case find (greatest_in (x # ?es)) (x # ?es) of
                  None \<Rightarrow> prim | Some e \<Rightarrow> fst e)
          else prim) = k"
          by (simp only: if_P [OF ex] hd option.case) (simp add: x)
        ultimately show ?thesis unfolding step f by (simp only:)
      qed
    next
      case ngt: False
      then have step: "selectLoop (x # xs) m prim = selectLoop xs m prim"
        by (simp add: x cfg)
      have mp: "js_ge m p" using js_ge_total [OF Cons.prems(2) pn] ngt by blast
      show ?thesis
      proof (cases "\<exists>e'\<in>set ?es. js_gt (snd e') m")
        case True
        then obtain e' where e': "e' \<in> set ?es" "js_gt (snd e') m" by blast
        from e'(2) mp have "js_gt (snd e') p" by (rule js_gt_ge_trans)
        with e'(1) have "\<exists>e'\<in>set ?es. js_gt (snd e') p" by (rule rev_bexI)
        then have sk: "find (greatest_in (x # ?es)) (x # ?es) = find (greatest_in ?es) ?es"
          by (rule find_greatest_skip [of ?es x, unfolded px])
        have ex: "\<exists>e\<in>set (x # ?es). js_gt (snd e) m" using True by simp
        have "(if \<exists>e\<in>set (x # ?es). js_gt (snd e) m
          then (case find (greatest_in (x # ?es)) (x # ?es) of
                  None \<Rightarrow> prim | Some e \<Rightarrow> fst e)
          else prim) = (case find (greatest_in ?es) ?es of
                  None \<Rightarrow> prim | Some e \<Rightarrow> fst e)"
          by (simp only: if_P [OF ex] sk)
        moreover have "selectLoop xs m prim = Inr (case find (greatest_in ?es) ?es of
                  None \<Rightarrow> prim | Some e \<Rightarrow> fst e)"
          using Cons.IH [OF keys Cons.prems(2), of prim] by (simp only: if_P [OF True])
        ultimately show ?thesis unfolding step f by (simp only:)
      next
        case False
        then have nex: "\<not> (\<exists>e\<in>set (x # ?es). js_gt (snd e) m)" using ngt by (simp add: x)
        have "selectLoop xs m prim = Inr prim"
          using Cons.IH [OF keys Cons.prems(2), of prim] by (simp only: if_not_P [OF False])
        then show ?thesis unfolding step f by (simp only: if_not_P [OF nex])
      qed
    qed
  qed
qed

lemma selectPrimarySegment_spec:
  assumes "\<forall>e\<in>set xs. fst e \<in> fst ` set customerSegments"
  shows "selectPrimarySegment xs = Inr (spec_primary xs)"
proof (cases "filter eligible xs = []")
  case True
  then show ?thesis
    using selectLoop_spec [OF assms, of "Num 0" "''international_minimalist''"]
    by (simp add: selectPrimarySegment_def spec_primary_def)
next
  case False
  then obtain e where e: "e \<in> set (filter eligible xs)" by (cases "filter eligible xs") auto
  then have "eligible e" by simp
  then have "js_gt (snd e) (Num 0)" by (rule eligible_positive)
  with e have "\<exists>e\<in>set (filter eligible xs). js_gt (snd e) (Num 0)" by blast
  then show ?thesis
    using selectLoop_spec [OF assms, of "Num 0" "''international_minimalist''"]
    by (simp add: selectPrimarySegment_def spec_primary_def Let_def)
qed

lemma select_probabilities:
  "selectPrimarySegment (calculateSegmentProbabilities s) =
     Inr (spec_primary (calculateSegmentProbabilities s))"
proof (rule selectPrimarySegment_spec)
  have "fst ` set (calculateSegmentProbabilities s) = fst ` set customerSegments"
    using probabilities_keys [of s] by (metis set_map)
  then show "\<forall>e\<in>set (calculateSegmentProbabilities s). fst e \<in> fst ` set customerSegments"
    by blast
qed

lemma classify_primary:
  "classify s = Inr c \<Longrightarrow> primary_segment c = spec_primary (calculateSegmentProbabilities s)"
  by (auto simp: classify_def Let_def select_probabilities split: option.splits if_splits)


text \<open>
  C1: for every signal vector passing validation, the probabilities are walked in the
  catalog's order with the catalog's thresholds (0.75, 0.85, 0.7, 0.8), and the segment
  selected is the first one, in that order, among the segments reaching their own
  threshold whose probability no other such segment exceeds; when no segment reaches its
  threshold it is \<^verbatim>\<open>international_minimalist\<close>. A returned classification carries this
  segment.
\<close>

theorem primary_segment_selection:
  assumes "validate s = None"
  shows "map fst (calculateSegmentProbabilities s) = map fst customerSegments
    \<and> map (\<lambda>e. (fst e, confidence (snd e))) customerSegments = spec_threshold
    \<and> selectPrimarySegment (calculateSegmentProbabilities s)
        = Inr (spec_primary (calculateSegmentProbabilities s))
    \<and> (filter eligible (calculateSegmentProbabilities s) = []
        \<longrightarrow> spec_primary (calculateSegmentProbabilities s) = ''international_minimalist'')
    \<and> (\<forall>c. classify s = Inr c \<longrightarrow> primary_segment c = spec_primary (segment_probabilities c))"
proof -
  have "filter eligible (calculateSegmentProbabilities s) = []
        \<longrightarrow> spec_primary (calculateSegmentProbabilities s) = ''international_minimalist''"
    by (simp add: spec_primary_def)
  moreover have "\<forall>c. classify s = Inr c \<longrightarrow> primary_segment c = spec_primary (segment_probabilities c)"
    using classify_primary [of s] classify_probabilities [of s] by simp
  ultimately show ?thesis
    using probabilities_keys [of s] catalog_thresholds select_probabilities [of s]
    by (simp only: simp_thms)
qed

lemma validate_tie_vector: "validate tie_vector = None"
  by (simp add: validate_def missingSignals_def requiredSignals_def isFlag_def isNaN_def
      tie_vector_def all_zero_def)

lemma probabilities_tie_vector:
  "calculateSegmentProbabilities tie_vector =
     [(''italian_heritage_advocate'', Num 1), (''luxury_project_planner'', Num 0),
      (''international_minimalist'', Num 0), (''hospitality_professional'', Num 1)]"
  by (simp add: calculateSegmentProbabilities_def tie_vector_def all_zero_def)

theorem primary_segment_selection_witness:
  "validate tie_vector = None
   \<and> calculateSegmentProbabilities tie_vector =
       [(''italian_heritage_advocate'', Num 1), (''luxury_project_planner'', Num 0),
        (''international_minimalist'', Num 0), (''hospitality_professional'', Num 1)]
   \<and> selectPrimarySegment (calculateSegmentProbabilities tie_vector)
       = Inr ''italian_heritage_advocate''
   \<and> spec_primary (calculateSegmentProbabilities tie_vector) = ''italian_heritage_advocate''"
proof -
  have "spec_primary (calculateSegmentProbabilities tie_vector) = ''italian_heritage_advocate''"
    by (simp add: probabilities_tie_vector spec_primary_def eligible_def spec_threshold_def
        greatest_in_def)
  then show ?thesis
    using primary_segment_selection [OF validate_tie_vector] validate_tie_vector
      probabilities_tie_vector
    by simp
qed

lemma spec_primary_key:
  "spec_primary (calculateSegmentProbabilities s) \<in> fst ` set customerSegments"
proof -
  let ?ps = "calculateSegmentProbabilities s"
  have keys: "fst ` set ?ps = fst ` set customerSegments"
    using probabilities_keys [of s] by (metis set_map)
  show ?thesis
  proof (cases "find (greatest_in (filter eligible ?ps)) (filter eligible ?ps)")
    case None
    then have "spec_primary ?ps = ''international_minimalist''" by (simp add: spec_primary_def)
    then show ?thesis by (simp add: customerSegments_def)
  next
    case (Some e)
    then have "e \<in> set (filter eligible ?ps)"
      by (metis find_Some_iff nth_mem)
    moreover have "spec_primary ?ps = fst e" using Some by (simp add: spec_primary_def)
    ultimately have "spec_primary ?ps \<in> fst ` set ?ps" by auto
    then show ?thesis by (simp only: keys)
  qed
qed

lemma primary_in_catalog:
  "classify s = Inr c \<Longrightarrow> primary_segment c \<in> fst ` set customerSegments"
  using classify_primary [of s c] spec_primary_key [of s] by simp


text \<open>
  C9: when a vector passes validation and every non-flag signal is finite,
  classification returns a result whose confidence is a real number of the unit interval;
  the error \<^verbatim>\<open>Classification confidence calculation failed\<close> is not thrown.
\<close>

theorem finite_confidence_in_unit:
  assumes "validate s = None" "numeric_finite s"
  shows "\<exists>c. classify s = Inr c \<and> in_unit (confidence_score c)
    \<and> classify s \<noteq> Inl (Error ''Classification confidence calculation failed'')"
proof -
  let ?ps = "calculateSegmentProbabilities s"
  let ?k = "spec_primary ?ps"
  have sel: "selectPrimarySegment ?ps = Inr ?k" by (rule select_probabilities)
  have "fst ` set ?ps = fst ` set customerSegments"
    using probabilities_keys [of s] by (metis set_map)
  then have "?k \<in> fst ` set ?ps" using spec_primary_key [of s] by simp
  then obtain p where p: "map_of ?ps ?k = Some p"
    by (metis map_of_eq_None_iff not_Some_eq)
  then have "(?k, p) \<in> set ?ps" by (rule map_of_SomeD)
  then have u: "in_unit p" using probabilities_finite_range [OF assms(2)] by fastforce
  then have "p \<noteq> NaN" by (rule in_unit_not_NaN)
  then have "\<exists>c. classify s = Inr c \<and> confidence_score c = p"
    using assms(1) sel p by (simp add: classify_def isNaN_def Let_def)
  with u show ?thesis by auto
qed

lemma validate_all_zero: "validate all_zero = None"
  by (simp add: validate_def missingSignals_def requiredSignals_def isFlag_def isNaN_def
      all_zero_def)

lemma finite_all_zero: "numeric_finite all_zero"
  by (simp add: numeric_finite_def requiredSignals_def all_zero_def)

theorem finite_confidence_in_unit_witness:
  "validate all_zero = None \<and> numeric_finite all_zero
   \<and> classify all_zero = Inr all_zero_result
   \<and> in_unit (confidence_score all_zero_result)"
  using finite_confidence_in_unit [OF validate_all_zero finite_all_zero]
    validate_all_zero finite_all_zero
  by (simp add: classify_all_zero)

lemma factors_spec: "identifyClassificationFactors s seg = spec_factors s seg"
  by (simp add: identifyClassificationFactors_def spec_factors_def factor_table_def factor_def)

lemma classify_factors:
  "classify s = Inr c \<Longrightarrow>
   classification_factors c = identifyClassificationFactors s (primary_segment c)"
  by (auto simp: classify_def Let_def split: option.splits sum.splits if_splits)

lemma factor_table_length: "length (factor_table seg) \<le> 3"
  by (simp add: factor_table_def)

lemma factor_table_distinct: "distinct (map snd (factor_table seg))"
  by (simp add: factor_table_def)

text \<open>
  C7: for every signal vector passing validation, the factors of a returned
  classification are those of its primary segment alone: the texts of the segment's
  checks that pass, in the order of the segment's table. The table holds at most three
  checks per segment, each a strict comparison of one signal with 0.6, except
  \<^verbatim>\<open>heritage_content_time\<close> (compared with 90) and the \<^verbatim>\<open>multi_room_navigation\<close> flag
  (tested for truthiness); no check passing gives the empty list.
\<close>

theorem factors_follow_table:
  assumes "validate s = None"
  shows "identifyClassificationFactors s seg = spec_factors s seg
    \<and> length (factor_table seg) \<le> 3
    \<and> length (identifyClassificationFactors s seg) \<le> 3
    \<and> (\<forall>c. classify s = Inr c \<longrightarrow>
          classification_factors c = spec_factors s (primary_segment c))
    \<and> ((\<forall>chk\<in>set (factor_table seg). \<not> passes s (fst chk))
        \<longrightarrow> identifyClassificationFactors s seg = [])"
proof -
  have "length (spec_factors s seg) \<le> length (factor_table seg)"
    by (simp add: spec_factors_def)
  then have "length (identifyClassificationFactors s seg) \<le> 3"
    using factor_table_length [of seg] by (simp add: factors_spec)
  moreover have "identifyClassificationFactors s seg = []"
    if "\<forall>chk\<in>set (factor_table seg). \<not> passes s (fst chk)"
    using that by (simp add: factors_spec spec_factors_def)
  ultimately show ?thesis
    using factor_table_length [of seg] classify_factors [of s]
    by (simp add: factors_spec)
qed

theorem factors_follow_table_witness:
  "validate planner_full = None
   \<and> classify planner_full = Inr planner_full_result
   \<and> classification_factors planner_full_result =
       [''Multi-room project exploration'', ''Complete project interest signals'',
        ''Premium budget indicators'']
   \<and> spec_factors planner_full ''luxury_project_planner'' =
       classification_factors planner_full_result
   \<and> identifyClassificationFactors all_zero ''international_minimalist'' = []"
proof -
  have "identifyClassificationFactors all_zero ''international_minimalist'' = []"
    by (simp add: identifyClassificationFactors_def factor_def all_zero_def)
  moreover have "primary_segment planner_full_result = ''luxury_project_planner''"
    by (simp add: planner_full_result_def)
  moreover have "classification_factors planner_full_result =
       [''Multi-room project exploration'', ''Complete project interest signals'',
        ''Premium budget indicators'']"
    by (simp add: planner_full_result_def)
  ultimately show ?thesis
    using factors_follow_table [OF validate_planner_full, of "''luxury_project_planner''"]
      validate_planner_full classify_planner_full
    by simp
qed

text \<open>
  C10: the factor comparisons are strict. For every signal vector passing validation, a
  signal that equals the threshold of its check in the table of the primary segment
  contributes no factor text: with primary segment \<^verbatim>\<open>italian_heritage_advocate\<close>,
  \<^verbatim>\<open>designer_story_engagement = 0.6\<close> or \<^verbatim>\<open>heritage_content_time = 90\<close> leaves the
  corresponding text out of the returned factors.
\<close>

theorem factor_at_threshold_absent:
  assumes "validate s = None" "classify s = Inr c"
    and "(Above k t, txt) \<in> set (factor_table (primary_segment c))"
    and "s k = JNumber (Num t)"
  shows "txt \<notin> set (classification_factors c)"
proof
  let ?tab = "factor_table (primary_segment c)"
  assume "txt \<in> set (classification_factors c)"
  then have "txt \<in> set (spec_factors s (primary_segment c))"
    using classify_factors [OF assms(2)] by (simp add: factors_spec)
  then obtain chk where chk: "(chk, txt) \<in> set ?tab" "passes s chk"
    by (auto simp: spec_factors_def)
  have "inj_on snd (set ?tab)"
    using factor_table_distinct [of "primary_segment c"] by (simp add: distinct_map)
  then have "(chk, txt) = (Above k t, txt)"
    using inj_onD [of snd "set ?tab" "(chk, txt)" "(Above k t, txt)"] chk(1) assms(3)
    by simp
  then have "passes s (Above k t)" using chk(2) by simp
  then show False using assms(4) by simp
qed

lemma classify_heritage_at_threshold:
  "classify heritage_at_threshold = Inr heritage_at_threshold_result"
  by (simp add: model_defs heritage_at_threshold_def all_zero_def
      heritage_at_threshold_result_def)

lemma validate_heritage_at_threshold: "validate heritage_at_threshold = None"
  by (simp add: validate_def missingSignals_def requiredSignals_def isFlag_def isNaN_def
      heritage_at_threshold_def all_zero_def)

theorem factor_at_threshold_absent_witness:
  "validate heritage_at_threshold = None
   \<and> classify heritage_at_threshold = Inr heritage_at_threshold_result
   \<and> primary_segment heritage_at_threshold_result = ''italian_heritage_advocate''
   \<and> heritage_at_threshold ''designer_story_engagement'' = JNumber (Num 0.6)
   \<and> heritage_at_threshold ''heritage_content_time'' = JNumber (Num 90)
   \<and> ''High designer story engagement'' \<notin> set (classification_factors heritage_at_threshold_result)
   \<and> ''Extended heritage content consumption''
       \<notin> set (classification_factors heritage_at_threshold_result)
   \<and> classification_factors heritage_at_threshold_result = [''Strong craftsmanship interest'']"
proof -
  have p: "primary_segment heritage_at_threshold_result = ''italian_heritage_advocate''"
    by (simp add: heritage_at_threshold_result_def)
  have a: "(Above ''designer_story_engagement'' 0.6, ''High designer story engagement'')
      \<in> set (factor_table (primary_segment heritage_at_threshold_result))"
    by (simp add: p factor_table_def)
  have b: "(Above ''heritage_content_time'' 90, ''Extended heritage content consumption'')
      \<in> set (factor_table (primary_segment heritage_at_threshold_result))"
    by (simp add: p factor_table_def)
  have va: "heritage_at_threshold ''designer_story_engagement'' = JNumber (Num 0.6)"
    by (simp add: heritage_at_threshold_def)
  have vb: "heritage_at_threshold ''heritage_content_time'' = JNumber (Num 90)"
    by (simp add: heritage_at_threshold_def)
  have "classification_factors heritage_at_threshold_result = [''Strong craftsmanship interest'']"
    by (simp add: heritage_at_threshold_result_def)
  then show ?thesis
    using factor_at_threshold_absent
        [OF validate_heritage_at_threshold classify_heritage_at_threshold a va]
      factor_at_threshold_absent
        [OF validate_heritage_at_threshold classify_heritage_at_threshold b vb]
      validate_heritage_at_threshold classify_heritage_at_threshold p va vb
    by simp
qed

end
